theory Spec2Isabelle
  imports Main "HOL-Library.Word"
begin

section \<open>JavaScript strings and JSON values\<close>

text \<open>
  A JavaScript string is a sequence of UTF-16 code units. ASCII literals of the source are
  written \<open>ascii ''...''\<close>; the non-ASCII literals of \<^verbatim>\<open>app.js\<close> are given by their code units.
\<close>

type_synonym jsstring = "16 word list"

definition ascii :: "string \<Rightarrow> jsstring" where
  "ascii cs = map of_char cs"

text \<open>
  \<^verbatim>\<open>String.prototype.trim\<close> strips the ECMAScript WhiteSpace and LineTerminator code
  points from both ends; all of them are single code units.
\<close>

definition is_ws :: "16 word \<Rightarrow> bool" where
  "is_ws c \<longleftrightarrow>
     c \<in> set [0x09, 0x0A, 0x0B, 0x0C, 0x0D, 0x20, 0xA0, 0x1680,
               0x2028, 0x2029, 0x202F, 0x205F, 0x3000, 0xFEFF]
     \<or> (0x2000 \<le> c \<and> c \<le> 0x200A)"

definition trim :: "jsstring \<Rightarrow> jsstring" where
  "trim s = rev (dropWhile is_ws (rev (dropWhile is_ws s)))"

text \<open>
  \<^verbatim>\<open>str.replace(pat, rep)\<close> with a string pattern replaces the first occurrence only
  (the replacement used by the source is the empty string, so no \<^verbatim>\<open>$\<close> pattern occurs).
\<close>

fun replace_first :: "jsstring \<Rightarrow> jsstring \<Rightarrow> jsstring \<Rightarrow> jsstring" where
  "replace_first pat rep [] = (if pat = [] then rep else [])"
| "replace_first pat rep (c # cs) =
     (if take (length pat) (c # cs) = pat then rep @ drop (length pat) (c # cs)
      else c # replace_first pat rep cs)"

text \<open>
  The numbers of the model are the integer-valued doubles of magnitude below \<open>10^21\<close>: an
  integer is a double when it is a 53-bit mantissa times a power of two, and below \<open>10^21\<close>
  \<^verbatim>\<open>Number::toString\<close> prints such a number in plain decimal (from \<open>10^21\<close> on it prints an
  exponent form). Numbers with a fraction and larger numbers are not values of the model.
\<close>

typedef small_int =
  "{n :: int. \<bar>n\<bar> < 1000000000000000000000
      \<and> (\<exists>(m :: int) (e :: nat). \<bar>n\<bar> = m * 2 ^ e \<and> m < 9007199254740992)}"
  morphisms int_of_small small_of_int
  by (rule exI [of _ 0]) simp

text \<open>
  The values \<^verbatim>\<open>res.json()\<close> can resolve to, and \<^verbatim>\<open>undefined\<close> for a property that is
  not there. An object keeps its members in document order; a repeated key takes its last
  value.
\<close>

datatype jsval =
    JUndefined
  | JNull
  | JBool bool
  | JNum small_int
  | JStr jsstring
  | JArr "jsval list"
  | JObj "(jsstring \<times> jsval) list"

datatype js_error = NetworkError | JsonSyntaxError | TypeError | RendererError

fun dec_digits :: "nat \<Rightarrow> jsstring" where
  "dec_digits n =
     (if n < 10 then [of_nat (48 + n)]
      else dec_digits (n div 10) @ [of_nat (48 + n mod 10)])"

declare dec_digits.simps [simp del]

definition int_text :: "int \<Rightarrow> jsstring" where
  "int_text n = (if n < 0 then ascii ''-'' @ dec_digits (nat (- n)) else dec_digits (nat n))"

text \<open>The first conversion that throws ends a sequence of conversions.\<close>

fun first_error :: "(js_error + 'a) list \<Rightarrow> js_error + 'a list" where
  "first_error [] = Inr []"
| "first_error (Inl e # rs) = Inl e"
| "first_error (Inr v # rs) = (case first_error rs of Inl e \<Rightarrow> Inl e | Inr vs \<Rightarrow> Inr (v # vs))"

fun join_comma :: "jsstring list \<Rightarrow> jsstring" where
  "join_comma [] = []"
| "join_comma [x] = x"
| "join_comma (x # y # ys) = x @ ascii '','' @ join_comma (y # ys)"

text \<open>
  ToString, as applied by a template literal, by string concatenation and by the
  conversion of an assigned value to a DOM string. An object is converted through its
  \<^verbatim>\<open>toString\<close> and \<^verbatim>\<open>valueOf\<close>: a parsed object with a member named \<^verbatim>\<open>toString\<close> of its own
  hides the inherited method by a value that cannot be called, the inherited \<^verbatim>\<open>valueOf\<close>
  returns the object itself and a member \<^verbatim>\<open>valueOf\<close> of its own cannot be called either, so the
  conversion throws a TypeError; any other parsed object gives \<^verbatim>\<open>[object Object]\<close>. An array
  is joined with commas, \<^verbatim>\<open>null\<close> and \<^verbatim>\<open>undefined\<close> elements giving the empty string and the
  other elements being converted in turn.
\<close>

fun js_to_string :: "jsval \<Rightarrow> js_error + jsstring" where
  "js_to_string JUndefined = Inr (ascii ''undefined'')"
| "js_to_string JNull = Inr (ascii ''null'')"
| "js_to_string (JBool b) = Inr (if b then ascii ''true'' else ascii ''false'')"
| "js_to_string (JNum n) = Inr (int_text (int_of_small n))"
| "js_to_string (JStr s) = Inr s"
| "js_to_string (JArr xs) =
     (case first_error
             (map (\<lambda>x. if x = JNull \<or> x = JUndefined then Inr [] else js_to_string x) xs) of
        Inl e \<Rightarrow> Inl e
      | Inr ss \<Rightarrow> Inr (join_comma ss))"
| "js_to_string (JObj kvs) =
     (if ascii ''toString'' \<in> set (map fst kvs) then Inl TypeError
      else Inr (ascii ''[object Object]''))"

text \<open>
  Property access \<^verbatim>\<open>data.key\<close>, for the keys the source reads (\<^verbatim>\<open>remaining\<close>, \<^verbatim>\<open>total\<close>,
  \<^verbatim>\<open>error\<close>, \<^verbatim>\<open>message\<close>, \<^verbatim>\<open>ticker\<close>, \<^verbatim>\<open>name\<close>, \<^verbatim>\<open>cached\<close>, \<^verbatim>\<open>content\<close>; none of them
  is a built-in property of a primitive or an array): a TypeError on \<^verbatim>\<open>null\<close> and
  \<^verbatim>\<open>undefined\<close>, \<^verbatim>\<open>undefined\<close> when the member is missing.
\<close>

fun js_get :: "jsval \<Rightarrow> jsstring \<Rightarrow> js_error + jsval" where
  "js_get JUndefined k = Inl TypeError"
| "js_get JNull k = Inl TypeError"
| "js_get (JObj kvs) k = (case map_of (rev kvs) k of Some v \<Rightarrow> Inr v | None \<Rightarrow> Inr JUndefined)"
| "js_get _ k = Inr JUndefined"

fun truthy :: "jsval \<Rightarrow> bool" where
  "truthy JUndefined = False"
| "truthy JNull = False"
| "truthy (JBool b) = b"
| "truthy (JNum n) = (int_of_small n \<noteq> 0)"
| "truthy (JStr s) = (s \<noteq> [])"
| "truthy (JArr xs) = True"
| "truthy (JObj kvs) = True"

text \<open>\<^verbatim>\<open>a || b\<close>\<close>

definition js_or :: "jsval \<Rightarrow> jsval \<Rightarrow> jsval" where
  "js_or a b = (if truthy a then a else b)"

text \<open>\<^verbatim>\<open>v === k\<close> for a number literal \<open>k\<close>.\<close>

fun strict_equals_int :: "jsval \<Rightarrow> int \<Rightarrow> bool" where
  "strict_equals_int (JNum n) k = (int_of_small n = k)"
| "strict_equals_int _ k = False"

text \<open>
  The string an assignment to \<^verbatim>\<open>el.textContent\<close> stores. The attribute is a nullable DOM
  string: \<^verbatim>\<open>null\<close> and \<^verbatim>\<open>undefined\<close> both clear the text, every other value is converted by
  ToString, which may throw.
\<close>

definition textContent_of :: "jsval \<Rightarrow> js_error + jsstring" where
  "textContent_of v = (if v = JNull \<or> v = JUndefined then Inr [] else js_to_string v)"

text \<open>\<^verbatim>\<open>classList.remove(t1, t2, ...)\<close> and \<^verbatim>\<open>classList.add(t)\<close> on a token list.\<close>

definition classList_remove :: "jsstring list \<Rightarrow> jsstring list \<Rightarrow> jsstring list" where
  "classList_remove toks cl = filter (\<lambda>c. c \<notin> set toks) cl"

definition classList_add :: "jsstring \<Rightarrow> jsstring list \<Rightarrow> jsstring list" where
  "classList_add tok cl = (if tok \<in> set cl then cl else cl @ [tok])"


section \<open>The page and the controller state\<close>

datatype request = GetQuota | PostResearch jsstring

text \<open>
  How an awaited \<^verbatim>\<open>fetch\<close> followed by \<^verbatim>\<open>res.json()\<close> ends: the fetch rejects, or it
  resolves with a status and the body fails to parse, or the body parses to a value.
  Nothing of the state is touched between the two awaits, so one step stands for both.
\<close>

datatype fetch_outcome = FetchRejects | JsonRejects nat | JsonResolves nat jsval

definition res_ok :: "nat \<Rightarrow> bool" where
  "res_ok status \<longleftrightarrow> 200 \<le> status \<and> status \<le> 299"

datatype timer_action = StepTimer nat | ShakeReset

datatype log_entry = QuotaCheckFailed js_error

datatype ui_call = FocusTickerInput | ScrollToTop | ScrollReportIntoView

record step_el =
  step_classes :: "jsstring list"
  step_text :: jsstring

text \<open>
  The global \<^verbatim>\<open>isLoading\<close>, the properties of the elements the script reads and writes
  (by element id; \<open>steps\<close> is indexed by the position in \<^verbatim>\<open>['step1', ..., 'step4']\<close>), the
  console, every request issued so far, the requests still awaited and the timers
  still to fire (delay in milliseconds and callback).
\<close>

record state =
  isLoading :: bool
  heroDisplay :: jsstring
  loadingDisplay :: jsstring
  errorDisplay :: jsstring
  reportDisplay :: jsstring
  tickerInput :: jsstring
  quotaText :: jsstring
  quotaClasses :: "jsstring list"
  loadingTicker :: jsstring
  steps :: "nat \<Rightarrow> step_el"
  reportTicker :: jsstring
  reportName :: jsstring
  badgeText :: jsstring
  badgeClassName :: jsstring
  reportContent :: jsstring
  errorTitle :: jsstring
  errorMessage :: jsstring
  boxAnimation :: jsstring
  ui_calls :: "ui_call list"
  console :: "log_entry list"
  requests :: "request list"
  pending :: "request list"
  timers :: "(nat \<times> timer_action) list"

text \<open>
  The markdown renderer is an external script: \<open>None\<close> when \<^verbatim>\<open>typeof marked\<close> is
  \<^verbatim>\<open>'undefined'\<close>, otherwise \<^verbatim>\<open>marked.parse\<close>, which returns markup or throws (\<open>None\<close>).
\<close>

type_synonym renderer = "jsval \<Rightarrow> jsstring option"


section \<open>Literals of the source\<close>

definition unknown_error_text :: jsstring where
  "unknown_error_text = [0x672A, 0x77E5, 0x932F, 0x8AA4]"

definition network_error_title :: jsstring where
  "network_error_title = [0x7DB2, 0x8DEF, 0x9023, 0x7DDA, 0x5931, 0x6557]"

definition network_error_message :: jsstring where
  "network_error_message =
     [0x8ACB, 0x78BA, 0x8A8D, 0x4F3A, 0x670D, 0x5668, 0x662F, 0x5426, 0x904B, 0x884C, 0x4E2D]"

definition check_mark :: jsstring where
  "check_mark = [0x2705, 0x0020]"

definition badge_cached_text :: jsstring where
  "badge_cached_text = [0xD83D, 0xDCE6, 0x0020, 0x5FEB, 0x53D6]"

definition badge_fresh_text :: jsstring where
  "badge_fresh_text = [0x2728, 0x0020, 0x5373, 0x6642, 0x751F, 0x6210]"

definition delays :: "nat list" where
  "delays = [0, 3000, 8000, 15000]"


section \<open>Quota\<close>

definition fetch :: "request \<Rightarrow> state \<Rightarrow> state" where
  "fetch r s = s\<lparr>requests := requests s @ [r], pending := pending s @ [r]\<rparr>"

text \<open>\<^verbatim>\<open>updateQuota\<close> up to its first \<^verbatim>\<open>await\<close>: the request is issued.\<close>

definition updateQuota :: "state \<Rightarrow> state" where
  "updateQuota s = fetch GetQuota s"

definition updateQuota_catch :: "js_error \<Rightarrow> state \<Rightarrow> state" where
  "updateQuota_catch e s = s\<lparr>console := console s @ [QuotaCheckFailed e]\<rparr>"

text \<open>
  The rest of \<^verbatim>\<open>updateQuota\<close>, run when the request settles. The template literal is
  evaluated before the assignment (each member is read and converted to a string in
  turn), so a property access or a conversion that throws changes nothing but the console.
\<close>

fun updateQuota_resume :: "fetch_outcome \<Rightarrow> state \<Rightarrow> state" where
  "updateQuota_resume FetchRejects s = updateQuota_catch NetworkError s"
| "updateQuota_resume (JsonRejects status) s = updateQuota_catch JsonSyntaxError s"
| "updateQuota_resume (JsonResolves status data) s =
     (case js_get data (ascii ''remaining'') of
        Inl e \<Rightarrow> updateQuota_catch e s
      | Inr rem \<Rightarrow>
     (case js_to_string rem of
        Inl e \<Rightarrow> updateQuota_catch e s
      | Inr rem_text \<Rightarrow>
     (case js_get data (ascii ''total'') of
        Inl e \<Rightarrow> updateQuota_catch e s
      | Inr tot \<Rightarrow>
     (case js_to_string tot of
        Inl e \<Rightarrow> updateQuota_catch e s
      | Inr tot_text \<Rightarrow>
          let s1 = s\<lparr>quotaText := rem_text @ ascii ''/'' @ tot_text\<rparr>;
              s2 = s1\<lparr>quotaClasses :=
                      classList_remove [ascii ''warning'', ascii ''empty''] (quotaClasses s1)\<rparr>
          in if strict_equals_int rem 0
             then s2\<lparr>quotaClasses := classList_add (ascii ''empty'') (quotaClasses s2)\<rparr>
             else if strict_equals_int rem 1
             then s2\<lparr>quotaClasses := classList_add (ascii ''warning'') (quotaClasses s2)\<rparr>
             else s2))))"


section \<open>Views\<close>

definition hideAll :: "state \<Rightarrow> state" where
  "hideAll s = s\<lparr>heroDisplay := ascii ''none'', loadingDisplay := ascii ''none'',
                 errorDisplay := ascii ''none'', reportDisplay := ascii ''none''\<rparr>"

text \<open>
  A function of the script that may throw half way returns the error, if any, together
  with the state: what has been written by then stays written. \<open>attempt r s k\<close> stops with
  the state \<open>s\<close> when the evaluation \<open>r\<close> throws, and goes on with its value otherwise.
\<close>

definition attempt ::
    "js_error + 'a \<Rightarrow> state \<Rightarrow> ('a \<Rightarrow> js_error option \<times> state) \<Rightarrow> js_error option \<times> state" where
  "attempt r s k = (case r of Inl e \<Rightarrow> (Some e, s) | Inr v \<Rightarrow> k v)"

text \<open>\<^verbatim>\<open>showError\<close>: each of the two \<^verbatim>\<open>textContent\<close> assignments may throw.\<close>

definition showError :: "jsval \<Rightarrow> jsval \<Rightarrow> state \<Rightarrow> js_error option \<times> state" where
  "showError title message s =
     (let s1 = (hideAll s)\<lparr>errorDisplay := ascii ''block''\<rparr> in
      attempt (textContent_of title) s1 (\<lambda>title_text.
      let s2 = s1\<lparr>errorTitle := title_text\<rparr> in
      attempt (textContent_of message) s2 (\<lambda>message_text.
      (None, s2\<lparr>errorMessage := message_text\<rparr>))))"

definition resetToSearch :: "state \<Rightarrow> state" where
  "resetToSearch s =
     (hideAll s)\<lparr>heroDisplay := ascii ''block'', tickerInput := [],
                 ui_calls := ui_calls s @ [FocusTickerInput, ScrollToTop]\<rparr>"

definition shakeInput :: "state \<Rightarrow> state" where
  "shakeInput s = s\<lparr>boxAnimation := ascii ''shake 0.4s ease'',
                    timers := timers s @ [(400, ShakeReset)]\<rparr>"

text \<open>
  \<^verbatim>\<open>showReport\<close> throws on a \<^verbatim>\<open>null\<close> body, on a member that cannot be converted to a
  string and when the renderer throws.
\<close>

definition showReport :: "renderer option \<Rightarrow> jsval \<Rightarrow> state \<Rightarrow> js_error option \<times> state" where
  "showReport mk data s =
     (let s1 = (hideAll s)\<lparr>reportDisplay := ascii ''block''\<rparr> in
      attempt (js_get data (ascii ''ticker'')) s1 (\<lambda>tk.
      attempt (textContent_of tk) s1 (\<lambda>ticker_text.
      let s2 = s1\<lparr>reportTicker := ticker_text\<rparr> in
      attempt (js_get data (ascii ''name'')) s2 (\<lambda>nm.
      attempt (textContent_of (js_or nm (JStr []))) s2 (\<lambda>name_text.
      let s3 = s2\<lparr>reportName := name_text\<rparr> in
      attempt (js_get data (ascii ''cached'')) s3 (\<lambda>cached.
      let s4 = (if truthy cached
                then s3\<lparr>badgeText := badge_cached_text,
                        badgeClassName := ascii ''report-badge cached''\<rparr>
                else s3\<lparr>badgeText := badge_fresh_text,
                        badgeClassName := ascii ''report-badge fresh''\<rparr>) in
      attempt (js_get data (ascii ''content'')) s4 (\<lambda>content.
      attempt
        (case mk of
           Some parse \<Rightarrow>
             (case parse (js_or content (JStr [])) of
                None \<Rightarrow> Inl RendererError
              | Some html \<Rightarrow> Inr html)
         | None \<Rightarrow>
             (case js_to_string (js_or content (JStr [])) of
                Inl e \<Rightarrow> Inl e
              | Inr content_text \<Rightarrow> Inr (ascii ''<pre>'' @ content_text @ ascii ''</pre>'')))
        s4 (\<lambda>html.
      (None, s4\<lparr>reportContent := html,
                ui_calls := ui_calls s4 @ [ScrollReportIntoView]\<rparr>)))))))))"


section \<open>Loading animation\<close>

text \<open>One round of the \<^verbatim>\<open>forEach\<close> of \<^verbatim>\<open>showLoading\<close>: reset the step, set its timer.\<close>

definition showLoading_step :: "nat \<Rightarrow> state \<Rightarrow> state" where
  "showLoading_step i s =
     s\<lparr>steps := (steps s)(i := (steps s i)\<lparr>step_classes :=
                   classList_remove [ascii ''active'', ascii ''done''] (step_classes (steps s i))\<rparr>),
       timers := timers s @ [(delays ! i, StepTimer i)]\<rparr>"

definition showLoading :: "jsstring \<Rightarrow> state \<Rightarrow> state" where
  "showLoading ticker s =
     fold showLoading_step [0..<4]
       ((hideAll s)\<lparr>loadingDisplay := ascii ''block'', loadingTicker := ticker\<rparr>)"

text \<open>The body of the \<^verbatim>\<open>for\<close> loop of a step timer, for one earlier step \<open>j\<close>.\<close>

definition mark_done :: "nat \<Rightarrow> state \<Rightarrow> state" where
  "mark_done j s =
     (let e = steps s j;
          e1 = e\<lparr>step_classes := classList_remove [ascii ''active''] (step_classes e)\<rparr>;
          e2 = e1\<lparr>step_classes := classList_add (ascii ''done'') (step_classes e1)\<rparr>;
          e3 = e2\<lparr>step_text := check_mark @ replace_first check_mark [] (step_text e2)\<rparr>
      in s\<lparr>steps := (steps s)(j := e3)\<rparr>)"

text \<open>The callback given to \<^verbatim>\<open>setTimeout\<close> for step \<open>i\<close>.\<close>

definition step_timer :: "nat \<Rightarrow> state \<Rightarrow> state" where
  "step_timer i s =
     (if \<not> isLoading s then s
      else let s1 = fold mark_done [0..<i] s
           in s1\<lparr>steps := (steps s1)(i := (steps s1 i)\<lparr>step_classes :=
                     classList_add (ascii ''active'') (step_classes (steps s1 i))\<rparr>)\<rparr>)"

fun run_timer :: "timer_action \<Rightarrow> state \<Rightarrow> state" where
  "run_timer (StepTimer i) s = step_timer i s"
| "run_timer ShakeReset s = s\<lparr>boxAnimation := []\<rparr>"


section \<open>Search\<close>

text \<open>\<^verbatim>\<open>handleSearch\<close> up to its first \<^verbatim>\<open>await\<close>.\<close>

definition handleSearch :: "state \<Rightarrow> state" where
  "handleSearch s =
     (if isLoading s then s
      else let ticker = trim (tickerInput s) in
        if ticker = [] then shakeInput s
        else fetch (PostResearch ticker) (showLoading ticker (s\<lparr>isLoading := True\<rparr>)))"

text \<open>The \<^verbatim>\<open>catch\<close> block: \<^verbatim>\<open>showError\<close> with two string literals.\<close>

definition handleSearch_catch :: "state \<Rightarrow> state" where
  "handleSearch_catch s =
     snd (showError (JStr network_error_title) (JStr network_error_message) s)"

text \<open>The \<^verbatim>\<open>try\<close> block of \<^verbatim>\<open>handleSearch\<close> after the request has settled, with its \<^verbatim>\<open>catch\<close>.\<close>

fun handleSearch_try :: "renderer option \<Rightarrow> fetch_outcome \<Rightarrow> state \<Rightarrow> state" where
  "handleSearch_try mk FetchRejects s = handleSearch_catch s"
| "handleSearch_try mk (JsonRejects status) s = handleSearch_catch s"
| "handleSearch_try mk (JsonResolves status data) s =
     (if \<not> res_ok status then
        (case js_get data (ascii ''error'') of
           Inl e \<Rightarrow> handleSearch_catch s
         | Inr err \<Rightarrow>
        (case js_get data (ascii ''message'') of
           Inl e \<Rightarrow> handleSearch_catch s
         | Inr msg \<Rightarrow>
        (case showError (js_or err (JStr unknown_error_text)) (js_or msg (JStr [])) s of
           (None, s') \<Rightarrow> s'
         | (Some e, s') \<Rightarrow> handleSearch_catch s')))
      else
        (case showReport mk data s of
           (None, s') \<Rightarrow> s'
         | (Some e, s') \<Rightarrow> handleSearch_catch s'))"

text \<open>The continuation of \<^verbatim>\<open>handleSearch\<close>: the \<^verbatim>\<open>try\<close> block, then the \<^verbatim>\<open>finally\<close> block.\<close>

definition handleSearch_resume :: "renderer option \<Rightarrow> fetch_outcome \<Rightarrow> state \<Rightarrow> state" where
  "handleSearch_resume mk out s = updateQuota ((handleSearch_try mk out s)\<lparr>isLoading := False\<rparr>)"

text \<open>
  Modelled from the spec: the markup of the input is not among the sources; it is a
  single-line text field, whose value never holds a line break: an assigned or entered
  value loses its line feeds and carriage returns.
\<close>

definition strip_newlines :: "jsstring \<Rightarrow> jsstring" where
  "strip_newlines v = filter (\<lambda>c. c \<noteq> 0x0A \<and> c \<noteq> 0x0D) v"

definition quickSearch :: "jsstring \<Rightarrow> state \<Rightarrow> state" where
  "quickSearch ticker s = handleSearch (s\<lparr>tickerInput := strip_newlines ticker\<rparr>)"

text \<open>The \<^verbatim>\<open>DOMContentLoaded\<close> handler.\<close>

definition on_load :: "state \<Rightarrow> state" where
  "on_load s = (updateQuota s)\<lparr>ui_calls := ui_calls (updateQuota s) @ [FocusTickerInput]\<rparr>"


section \<open>The event loop\<close>

text \<open>
  Everything runs on one thread, one handler at a time. An event is the page load, a user
  action (Enter or the search button, a quick-select chip, the back button, typing into the
  input), a direct call of \<^verbatim>\<open>updateQuota\<close>, a pending timer firing, or a pending request
  settling. Any pending timer and any pending request may be the next to complete: this
  allows every order the browser can produce. An event naming a timer or request that is
  not pending changes nothing.
\<close>

datatype event =
    PageLoaded
  | Submit
  | QuickSearch jsstring
  | ResetToSearch
  | RefreshQuota
  | UserTypes jsstring
  | TimerFires nat
  | Settles nat fetch_outcome

definition remove_nth :: "nat \<Rightarrow> 'a list \<Rightarrow> 'a list" where
  "remove_nth k xs = take k xs @ drop (Suc k) xs"

fun resume :: "renderer option \<Rightarrow> request \<Rightarrow> fetch_outcome \<Rightarrow> state \<Rightarrow> state" where
  "resume mk GetQuota out s = updateQuota_resume out s"
| "resume mk (PostResearch ticker) out s = handleSearch_resume mk out s"

fun step :: "renderer option \<Rightarrow> event \<Rightarrow> state \<Rightarrow> state" where
  "step mk PageLoaded s = on_load s"
| "step mk Submit s = handleSearch s"
| "step mk (QuickSearch ticker) s = quickSearch ticker s"
| "step mk ResetToSearch s = resetToSearch s"
| "step mk RefreshQuota s = updateQuota s"
| "step mk (UserTypes v) s = s\<lparr>tickerInput := strip_newlines v\<rparr>"
| "step mk (TimerFires k) s =
     (if k < length (timers s)
      then run_timer (snd (timers s ! k)) (s\<lparr>timers := remove_nth k (timers s)\<rparr>)
      else s)"
| "step mk (Settles k out) s =
     (if k < length (pending s)
      then resume mk (pending s ! k) out (s\<lparr>pending := remove_nth k (pending s)\<rparr>)
      else s)"

definition run :: "renderer option \<Rightarrow> event list \<Rightarrow> state \<Rightarrow> state" where
  "run mk evs s = fold (step mk) evs s"


section \<open>Visibility of the four views\<close>

text \<open>
  A section counts as visible unless its inline \<^verbatim>\<open>display\<close> is \<^verbatim>\<open>none\<close> (the style sheet is
  not part of the script, so nothing else can be known to hide it).
\<close>

definition visible :: "jsstring \<Rightarrow> bool" where
  "visible d \<longleftrightarrow> d \<noteq> ascii ''none''"

definition displays :: "state \<Rightarrow> jsstring list" where
  "displays s = [heroDisplay s, loadingDisplay s, reportDisplay s, errorDisplay s]"

definition visible_count :: "state \<Rightarrow> nat" where
  "visible_count s = length (filter visible (displays s))"

definition at_most_one_visible :: "state \<Rightarrow> bool" where
  "at_most_one_visible s \<longleftrightarrow> visible_count s \<le> 1"

text \<open>
  Modelled from the spec: the page markup (\<^verbatim>\<open>index.html\<close>) is not among the sources. The
  page as first shown has the search (hero) view as its only visible view, an empty input
  and no request or timer pending; the texts of the markup are left empty.
\<close>

definition initial_page :: state where
  "initial_page =
     \<lparr>isLoading = False,
      heroDisplay = [], loadingDisplay = ascii ''none'',
      errorDisplay = ascii ''none'', reportDisplay = ascii ''none'',
      tickerInput = [], quotaText = [], quotaClasses = [ascii ''quota-value''],
      loadingTicker = [],
      steps = (\<lambda>i. \<lparr>step_classes = [ascii ''step''], step_text = []\<rparr>),
      reportTicker = [], reportName = [], badgeText = [], badgeClassName = [],
      reportContent = [], errorTitle = [], errorMessage = [], boxAnimation = [],
      ui_calls = [], console = [], requests = [], pending = [], timers = []\<rparr>"

text \<open>The displays of a page showing the error view alone, and such a page with its texts.\<close>

definition error_only :: "jsstring list" where
  "error_only = [ascii ''none'', ascii ''none'', ascii ''none'', ascii ''block'']"

definition shows_error :: "jsstring \<Rightarrow> jsstring \<Rightarrow> state \<Rightarrow> bool" where
  "shows_error title message s \<longleftrightarrow>
     displays s = error_only \<and> errorTitle s = title \<and> errorMessage s = message"

text \<open>The network side of the state: what has been requested, what is still awaited.\<close>

definition network :: "state \<Rightarrow> request list \<times> request list" where
  "network s = (requests s, pending s)"

section \<open>Reading a decimal numeral\<close>

text \<open>
  What it means for a text to be the decimal numeral of an integer, stated without
  reference to the conversion above: an optional minus sign, then one or more of the
  digits 0 to 9 with no leading zero (the numeral of zero is the single digit 0 and has no
  sign), read in base ten.
\<close>

definition is_digit :: "16 word \<Rightarrow> bool" where
  "is_digit c \<longleftrightarrow> 0x30 \<le> c \<and> c \<le> 0x39"

definition digits_value :: "jsstring \<Rightarrow> nat" where
  "digits_value ds = foldl (\<lambda>a d. 10 * a + (unat d - 48)) 0 ds"

definition nat_of_decimal :: "jsstring \<Rightarrow> nat option" where
  "nat_of_decimal ds =
     (if ds \<noteq> [] \<and> list_all is_digit ds \<and> (length ds = 1 \<or> hd ds \<noteq> 0x30)
      then Some (digits_value ds) else None)"

definition int_of_decimal :: "jsstring \<Rightarrow> int option" where
  "int_of_decimal ds =
     (case ds of
        [] \<Rightarrow> None
      | c # cs \<Rightarrow>
          if c = 0x2D
          then (case nat_of_decimal cs of
                  None \<Rightarrow> None
                | Some n \<Rightarrow> if n = 0 then None else Some (- int n))
          else map_option int (nat_of_decimal ds))"


section \<open>Basic facts about the string and token-list operations\<close>

lemma ascii_neq_warning_empty: "ascii ''warning'' \<noteq> ascii ''empty''"
  by (simp add: ascii_def)

lemma set_classList_remove: "set (classList_remove toks cl) = set cl - set toks"
  by (auto simp: classList_remove_def)

lemma set_classList_add: "set (classList_add tok cl) = insert tok (set cl)"
  by (auto simp: classList_add_def)

lemma js_get_defined: "js_get d k = Inr v \<Longrightarrow> \<exists>w. js_get d k' = Inr w"
  by (cases d) (simp_all split: option.split)

text \<open>Every integer of magnitude below \<open>2^53\<close> is a number of the model.\<close>

lemma int_of_small_inverse:
  assumes "\<bar>n\<bar> < 9007199254740992"
  shows "int_of_small (small_of_int n) = n"
proof -
  have "\<bar>n\<bar> = \<bar>n\<bar> * 2 ^ 0 \<and> \<bar>n\<bar> < 9007199254740992"
    using assms by simp
  then have "\<exists>(m :: int) (e :: nat). \<bar>n\<bar> = m * 2 ^ e \<and> m < 9007199254740992"
    by blast
  moreover have "\<bar>n\<bar> < 1000000000000000000000"
    using assms by simp
  ultimately show ?thesis
    by (simp add: small_of_int_inverse)
qed

lemma textContent_of_JStr: "textContent_of (JStr t) = Inr t"
  by (simp add: textContent_of_def)

lemma upt_0_4: "[0..<4] = [0, 1, 2, 3]"
  by code_simp

text \<open>The trimmed text is empty exactly for an empty or whitespace-only string.\<close>

lemma dropWhile_rev_empty:
  "xs = [] \<or> \<not> P (hd xs) \<Longrightarrow> dropWhile P (rev xs) = [] \<longleftrightarrow> xs = []"
  by (cases xs) (auto simp: dropWhile_eq_Nil_conv)

lemma trim_empty_iff: "trim v = [] \<longleftrightarrow> list_all is_ws v"
proof -
  have "dropWhile is_ws v = [] \<or> \<not> is_ws (hd (dropWhile is_ws v))"
    using hd_dropWhile [of is_ws v] by blast
  then have "dropWhile is_ws (rev (dropWhile is_ws v)) = [] \<longleftrightarrow> dropWhile is_ws v = []"
    by (rule dropWhile_rev_empty)
  then show ?thesis
    by (simp add: trim_def dropWhile_eq_Nil_conv list_all_iff)
qed




lemma digits_value_snoc: "digits_value (ds @ [d]) = 10 * digits_value ds + (unat d - 48)"
  by (simp add: digits_value_def)








text \<open>
  Conversely the numeral of a number is unique: a text that reads as a number is the text
  the conversion writes for it.
\<close>

lemma is_digit_unat: "is_digit x \<longleftrightarrow> 48 \<le> unat x \<and> unat x \<le> 57"
  by (simp add: is_digit_def word_le_nat_alt)

lemma digit_of_unat: "is_digit x \<Longrightarrow> x = of_nat (48 + (unat x - 48))"
  by (simp add: is_digit_unat del: of_nat_add)

lemma digits_value_pos:
  "list_all is_digit ds \<Longrightarrow> ds \<noteq> [] \<Longrightarrow> hd ds \<noteq> 0x30 \<Longrightarrow> 0 < digits_value ds"
proof (induction ds rule: rev_induct)
  case Nil
  then show ?case by simp
next
  case (snoc x xs)
  show ?case
  proof (cases "xs = []")
    case True
    with snoc.prems have "is_digit x" and "x \<noteq> 0x30" by simp_all
    then have "48 < unat x"
      by (auto simp: is_digit_unat word_unat_eq_iff)
    with True show ?thesis by (simp add: digits_value_def)
  next
    case False
    with snoc have "0 < digits_value xs" by simp
    then show ?thesis by (simp add: digits_value_snoc)
  qed
qed

lemma dec_digits_small: "n < 10 \<Longrightarrow> dec_digits n = [of_nat (48 + n)]"
  by (subst dec_digits.simps) simp

lemma dec_digits_large:
  "\<not> n < 10 \<Longrightarrow> dec_digits n = dec_digits (n div 10) @ [of_nat (48 + n mod 10)]"
  by (subst dec_digits.simps) simp

lemma nat_of_decimal_unique: "nat_of_decimal ds = Some n \<Longrightarrow> ds = dec_digits n"
proof (induction ds arbitrary: n rule: rev_induct)
  case Nil
  then show ?case by (simp add: nat_of_decimal_def)
next
  case (snoc x xs)
  from snoc.prems have dig: "list_all is_digit xs" "is_digit x"
    and lead: "length (xs @ [x]) = 1 \<or> hd (xs @ [x]) \<noteq> 0x30"
    and n: "n = 10 * digits_value xs + (unat x - 48)"
    by (auto simp: nat_of_decimal_def digits_value_snoc split: if_splits)
  from dig(2) have d: "unat x - 48 < 10" and x: "x = of_nat (48 + (unat x - 48))"
    using digit_of_unat by (auto simp: is_digit_unat)
  show ?case
  proof (cases "xs = []")
    case True
    with n d have "n < 10" and "n = unat x - 48"
      by (simp_all add: digits_value_def)
    then have "dec_digits n = [of_nat (48 + (unat x - 48))]"
      using dec_digits_small [of n] by simp
    with True x show ?thesis by simp
  next
    case False
    with lead have hd: "hd xs \<noteq> 0x30" by simp
    with dig False have pos: "0 < digits_value xs"
      by (simp add: digits_value_pos)
    from dig False hd have "nat_of_decimal xs = Some (digits_value xs)"
      by (simp add: nat_of_decimal_def)
    then have xs: "xs = dec_digits (digits_value xs)"
      by (rule snoc.IH)
    from n d pos have "\<not> n < 10" "n div 10 = digits_value xs" "n mod 10 = unat x - 48"
      by simp_all
    then have "dec_digits n = dec_digits (digits_value xs) @ [of_nat (48 + (unat x - 48))]"
      using dec_digits_large [of n] by simp
    with xs x show ?thesis by simp
  qed
qed

lemma int_of_decimal_unique: "int_of_decimal ds = Some n \<Longrightarrow> ds = int_text n"
proof (cases ds)
  case Nil
  then show "int_of_decimal ds = Some n \<Longrightarrow> ds = int_text n"
    by (simp add: int_of_decimal_def)
next
  case (Cons c cs)
  assume a: "int_of_decimal ds = Some n"
  show "ds = int_text n"
  proof (cases "c = 0x2D")
    case True
    with a Cons obtain k where k: "nat_of_decimal cs = Some k" "k \<noteq> 0" "n = - int k"
      by (auto simp: int_of_decimal_def split: option.splits if_splits)
    then have "cs = dec_digits k" by (simp add: nat_of_decimal_unique)
    with k True Cons show ?thesis
      by (simp add: int_text_def ascii_def)
  next
    case False
    with a Cons obtain k where k: "nat_of_decimal ds = Some k" "n = int k"
      by (auto simp: int_of_decimal_def)
    then have "ds = dec_digits k" by (simp add: nat_of_decimal_unique)
    with k show ?thesis by (simp add: int_text_def)
  qed
qed

lemma int_text_samples:
  "int_text 120 = ascii ''120''" "int_text (- 7) = ascii ''-7''"
  by (simp_all add: int_text_def ascii_def dec_digits.simps)

text \<open>Conversions that throw, and conversions of arrays.\<close>

lemma js_to_string_samples:
  "js_to_string (JObj [(ascii ''toString'', JNull)]) = Inl TypeError"
  "js_to_string (JArr [JNum (small_of_int 12), JNull, JArr [JStr (ascii ''a''), JBool True]]) = Inr (ascii ''12,,a,true'')"
  "js_to_string (JArr [JNum (small_of_int 12), JObj [(ascii ''toString'', JNull)]]) = Inl TypeError"
  "js_to_string (JArr [JNum (small_of_int 12), JObj [(ascii ''valueOf'', JNull)]]) = Inr (ascii ''12,[object Object]'')"
  by (simp_all add: ascii_def int_text_def dec_digits.simps int_of_small_inverse)


section \<open>What each operation does to the four views\<close>

lemma visible_block: "visible (ascii ''block'')"
  by (simp add: visible_def ascii_def)

lemma visible_none: "\<not> visible (ascii ''none'')"
  by (simp add: visible_def)

lemma displays_hideAll:
  "displays (hideAll s) = [ascii ''none'', ascii ''none'', ascii ''none'', ascii ''none'']"
  by (simp add: displays_def hideAll_def)

lemma displays_showError: "displays (snd (showError title message s)) = error_only"
  by (simp add: displays_def showError_def attempt_def Let_def hideAll_def error_only_def
      split: sum.split)

lemma displays_handleSearch_catch: "displays (handleSearch_catch s) = error_only"
  by (simp add: handleSearch_catch_def displays_showError)

lemma displays_showError_caught:
  "displays (case showError title message s of
               (None, s') \<Rightarrow> s' | (Some e, s') \<Rightarrow> handleSearch_catch s') = error_only"
proof -
  obtain e s' where r: "showError title message s = (e, s')"
    by (cases "showError title message s")
  have "displays s' = error_only"
    using displays_showError [of title message s] r by simp
  with r show ?thesis
    by (cases e) (simp_all add: displays_handleSearch_catch)
qed

lemma displays_resetToSearch:
  "displays (resetToSearch s) = [ascii ''block'', ascii ''none'', ascii ''none'', ascii ''none'']"
  by (simp add: displays_def resetToSearch_def hideAll_def)

lemma displays_fold_showLoading_step: "displays (fold showLoading_step is s) = displays s"
  by (induction "is" arbitrary: s) (simp_all add: showLoading_step_def displays_def)

lemma displays_showLoading:
  "displays (showLoading ticker s) = [ascii ''none'', ascii ''block'', ascii ''none'', ascii ''none'']"
  by (simp add: showLoading_def displays_fold_showLoading_step)
     (simp add: displays_def hideAll_def)

lemma displays_showReport:
  "displays (snd (showReport mk data s)) = [ascii ''none'', ascii ''none'', ascii ''block'', ascii ''none'']"
  by (simp add: showReport_def attempt_def Let_def displays_def hideAll_def
      split: sum.split option.split)

lemma displays_fold_mark_done: "displays (fold mark_done js s) = displays s"
  by (induction js arbitrary: s) (simp_all add: mark_done_def Let_def displays_def)

lemma displays_steps_update: "displays (s\<lparr>steps := f\<rparr>) = displays s"
  by (simp add: displays_def)

lemma displays_step_timer: "displays (step_timer i s) = displays s"
  by (simp add: step_timer_def Let_def displays_steps_update displays_fold_mark_done)

lemma displays_run_timer: "displays (run_timer a s) = displays s"
  by (cases a) (simp_all add: displays_step_timer, simp add: displays_def)

lemma displays_fetch: "displays (fetch r s) = displays s"
  by (simp add: fetch_def displays_def)

lemma displays_updateQuota_resume: "displays (updateQuota_resume out s) = displays s"
  by (cases out)
     (simp_all add: updateQuota_catch_def displays_def Let_def split: sum.split)

lemma visible_count_cong: "displays s = displays s' \<Longrightarrow> visible_count s = visible_count s'"
  by (simp add: visible_count_def)

lemma visible_count_one:
  "displays s = [ascii ''block'', ascii ''none'', ascii ''none'', ascii ''none'']
   \<or> displays s = [ascii ''none'', ascii ''block'', ascii ''none'', ascii ''none'']
   \<or> displays s = [ascii ''none'', ascii ''none'', ascii ''block'', ascii ''none'']
   \<or> displays s = error_only
   \<Longrightarrow> visible_count s = 1"
  using visible_block visible_none by (auto simp: visible_count_def error_only_def)

lemma displays_handleSearch_try:
  "displays (handleSearch_try mk out s) = error_only
   \<or> displays (handleSearch_try mk out s) = [ascii ''none'', ascii ''none'', ascii ''block'', ascii ''none'']"
proof (cases out)
  case FetchRejects
  then show ?thesis by (simp add: displays_handleSearch_catch)
next
  case (JsonRejects status)
  then show ?thesis by (simp add: displays_handleSearch_catch)
next
  case (JsonResolves status data)
  show ?thesis
  proof (cases "res_ok status")
    case False
    with JsonResolves show ?thesis
      by (simp add: displays_handleSearch_catch displays_showError_caught split: sum.split)
  next
    case True
    obtain e s' where r: "showReport mk data s = (e, s')"
      by (cases "showReport mk data s")
    have "displays s' = [ascii ''none'', ascii ''none'', ascii ''block'', ascii ''none'']"
      using displays_showReport [of mk data s] r by simp
    with JsonResolves True r show ?thesis
      by (cases e) (simp_all add: displays_handleSearch_catch)
  qed
qed

lemma displays_handleSearch_resume:
  "displays (handleSearch_resume mk out s) = displays (handleSearch_try mk out s)"
  by (simp add: handleSearch_resume_def updateQuota_def fetch_def displays_def)

lemma displays_handleSearch:
  "displays (handleSearch s) = displays s
   \<or> displays (handleSearch s) = [ascii ''none'', ascii ''block'', ascii ''none'', ascii ''none'']"
  by (simp add: handleSearch_def Let_def displays_fetch displays_showLoading)
     (simp add: shakeInput_def displays_def)

text \<open>
  One event either leaves the four displays as they were, or ends with exactly one view
  shown: the handlers that switch views all go through \<open>hideAll\<close> and then show one.
\<close>

lemma step_views:
  "displays (step mk ev s) = displays s \<or> visible_count (step mk ev s) = 1"
proof (cases ev)
  case PageLoaded
  then show ?thesis by (simp add: on_load_def updateQuota_def fetch_def displays_def)
next
  case Submit
  then show ?thesis using displays_handleSearch [of s] visible_count_one by auto
next
  case (QuickSearch ticker)
  have "displays (s\<lparr>tickerInput := strip_newlines ticker\<rparr>) = displays s"
    by (simp add: displays_def)
  with QuickSearch show ?thesis
    using displays_handleSearch [of "s\<lparr>tickerInput := strip_newlines ticker\<rparr>"] visible_count_one
    by (auto simp: quickSearch_def)
next
  case ResetToSearch
  then show ?thesis using displays_resetToSearch [of s] visible_count_one by simp
next
  case RefreshQuota
  then show ?thesis by (simp add: updateQuota_def displays_fetch)
next
  case (UserTypes v)
  then show ?thesis by (simp add: displays_def)
next
  case (TimerFires k)
  then show ?thesis by (simp add: displays_run_timer) (simp add: displays_def)
next
  case (Settles k out)
  show ?thesis
  proof (cases "k < length (pending s)")
    case False
    with Settles show ?thesis by simp
  next
    case True
    let ?s = "s\<lparr>pending := remove_nth k (pending s)\<rparr>"
    have same: "displays ?s = displays s" by (simp add: displays_def)
    show ?thesis
    proof (cases "pending s ! k")
      case GetQuota
      with Settles True same show ?thesis by (simp add: displays_updateQuota_resume)
    next
      case (PostResearch ticker)
      have "displays (handleSearch_resume mk out ?s) = error_only
          \<or> displays (handleSearch_resume mk out ?s)
              = [ascii ''none'', ascii ''none'', ascii ''block'', ascii ''none'']"
        using displays_handleSearch_try [of mk out ?s]
        by (simp add: displays_handleSearch_resume)
      then have "visible_count (handleSearch_resume mk out ?s) = 1"
        using visible_count_one [of "handleSearch_resume mk out ?s"] by blast
      with Settles True PostResearch show ?thesis by simp
    qed
  qed
qed

lemma run_views:
  "displays (run mk evs s) = displays s \<or> visible_count (run mk evs s) = 1"
proof (induction evs arbitrary: s)
  case Nil
  then show ?case by (simp add: run_def)
next
  case (Cons ev evs)
  have r: "run mk (ev # evs) s = run mk evs (step mk ev s)"
    by (simp add: run_def)
  from Cons [of "step mk ev s"] step_views [of mk ev s] show ?case
    unfolding r using visible_count_cong by metis
qed

text \<open>
  Claim C1. Whatever events happen (submit, quota refresh, reset, quick select, typing,
  timers firing, requests settling with any outcome) and in whatever order, the four views
  are either exactly as they were at the start or exactly one of them is visible; so a
  page that starts with at most one of hero, loading, report and error visible has at most
  one of them visible after every transition.
\<close>

theorem views_mutually_exclusive:
  "(displays (run mk evs s) = displays s \<or> visible_count (run mk evs s) = 1)
   \<and> (at_most_one_visible s \<longrightarrow> at_most_one_visible (run mk evs s))"
  using run_views [of mk evs s] visible_count_cong [of "run mk evs s" s]
  by (auto simp: at_most_one_visible_def)

theorem views_mutually_exclusive_witness:
  "at_most_one_visible initial_page
   \<and> at_most_one_visible
       (run None
          [PageLoaded, UserTypes (ascii ''2330''), Submit, TimerFires 0,
           Settles 1 (JsonRejects 502), Settles 0 FetchRejects, ResetToSearch]
          initial_page)"
proof -
  have h: "at_most_one_visible initial_page"
    by (simp add: at_most_one_visible_def visible_count_def displays_def initial_page_def
        visible_def ascii_def)
  from views_mutually_exclusive [of None _ initial_page] h show ?thesis
    by blast
qed


section \<open>Requests are issued by \<open>fetch\<close> alone\<close>

lemma network_showError: "network (snd (showError title message s)) = network s"
  by (simp add: network_def showError_def attempt_def Let_def hideAll_def split: sum.split)

lemma network_handleSearch_catch: "network (handleSearch_catch s) = network s"
  by (simp add: handleSearch_catch_def network_showError)

lemma network_showError_caught:
  "network (case showError title message s of
               (None, s') \<Rightarrow> s' | (Some e, s') \<Rightarrow> handleSearch_catch s') = network s"
proof -
  obtain e s' where r: "showError title message s = (e, s')"
    by (cases "showError title message s")
  have "network s' = network s"
    using network_showError [of title message s] r by simp
  with r show ?thesis
    by (cases e) (simp_all add: network_handleSearch_catch)
qed

lemma network_showReport: "network (snd (showReport mk data s)) = network s"
  by (simp add: showReport_def attempt_def Let_def network_def hideAll_def
      split: sum.split option.split)

lemma network_handleSearch_try: "network (handleSearch_try mk out s) = network s"
proof (cases out)
  case FetchRejects
  then show ?thesis by (simp add: network_handleSearch_catch)
next
  case (JsonRejects status)
  then show ?thesis by (simp add: network_handleSearch_catch)
next
  case (JsonResolves status data)
  obtain e s' where r: "showReport mk data s = (e, s')"
    by (cases "showReport mk data s")
  have "network s' = network s"
    using network_showReport [of mk data s] r by simp
  with JsonResolves r show ?thesis
    by (cases e)
       (simp_all add: network_handleSearch_catch network_showError_caught split: sum.split)
qed

lemma handleSearch_resume_finally:
  "isLoading (handleSearch_resume mk out s) = False
   \<and> requests (handleSearch_resume mk out s) = requests s @ [GetQuota]
   \<and> pending (handleSearch_resume mk out s) = pending s @ [GetQuota]"
  using network_handleSearch_try [of mk out s]
  by (simp add: handleSearch_resume_def updateQuota_def fetch_def network_def)

lemma timers_showLoading:
  "timers (showLoading ticker s)
     = timers s @ [(0, StepTimer 0), (3000, StepTimer 1), (8000, StepTimer 2), (15000, StepTimer 3)]"
  by (simp add: showLoading_def upt_0_4 showLoading_step_def delays_def hideAll_def)

lemma network_fold_showLoading_step: "network (fold showLoading_step is s) = network s"
  by (induction "is" arbitrary: s) (simp_all add: showLoading_step_def network_def)

lemma isLoading_fold_showLoading_step: "isLoading (fold showLoading_step is s) = isLoading s"
  by (induction "is" arbitrary: s) (simp_all add: showLoading_step_def)

lemma handleSearch_starts:
  assumes "\<not> isLoading s" and "trim (tickerInput s) \<noteq> []"
  shows "isLoading (handleSearch s)
       \<and> requests (handleSearch s) = requests s @ [PostResearch (trim (tickerInput s))]
       \<and> pending (handleSearch s) = pending s @ [PostResearch (trim (tickerInput s))]"
  using assms
    network_fold_showLoading_step [of "[0..<4]"
      "(hideAll (s\<lparr>isLoading := True\<rparr>))\<lparr>loadingDisplay := ascii ''block'',
          loadingTicker := trim (tickerInput s)\<rparr>"]
  by (simp add: handleSearch_def Let_def fetch_def showLoading_def
      isLoading_fold_showLoading_step network_def hideAll_def)


section \<open>Submitting\<close>

text \<open>
  Claim C2. Whatever the input text, a submit while \<^verbatim>\<open>isLoading\<close> is true changes nothing
  at all: the whole state, and with it the list of issued requests, the views and the
  flag, is returned as it was.
\<close>

theorem submit_in_flight_noop:
  assumes "isLoading s"
  shows "handleSearch s = s \<and> step mk Submit s = s"
  using assms by (simp add: handleSearch_def)

theorem submit_in_flight_noop_witness:
  "isLoading (initial_page\<lparr>isLoading := True, tickerInput := ascii ''AAPL''\<rparr>)
   \<and> handleSearch (initial_page\<lparr>isLoading := True, tickerInput := ascii ''AAPL''\<rparr>)
       = initial_page\<lparr>isLoading := True, tickerInput := ascii ''AAPL''\<rparr>"
  using submit_in_flight_noop [of "initial_page\<lparr>isLoading := True, tickerInput := ascii ''AAPL''\<rparr>"]
  by simp

text \<open>
  Claim C3. A submit that starts a request (flag clear, trimmed text not empty) sets the
  flag and issues the research request. Whenever that request later settles, in whatever
  state the page is by then and with whatever outcome (a report, a rejection, a thrown
  failure), the flag is false afterwards and exactly one request, a quota fetch, has been
  issued by the settling.
\<close>

theorem submit_settles_finally:
  assumes "\<not> isLoading s0" and "trim (tickerInput s0) \<noteq> []"
  shows "isLoading (handleSearch s0)
       \<and> requests (handleSearch s0) = requests s0 @ [PostResearch (trim (tickerInput s0))]
       \<and> pending (handleSearch s0) = pending s0 @ [PostResearch (trim (tickerInput s0))]
       \<and> (\<forall>s k out.
            k < length (pending s) \<and> pending s ! k = PostResearch (trim (tickerInput s0)) \<longrightarrow>
              isLoading (step mk (Settles k out) s) = False
            \<and> requests (step mk (Settles k out) s) = requests s @ [GetQuota]
            \<and> pending (step mk (Settles k out) s) = remove_nth k (pending s) @ [GetQuota])"
proof -
  have "isLoading (step mk (Settles k out) s) = False
      \<and> requests (step mk (Settles k out) s) = requests s @ [GetQuota]
      \<and> pending (step mk (Settles k out) s) = remove_nth k (pending s) @ [GetQuota]"
    if "k < length (pending s)" and "pending s ! k = PostResearch (trim (tickerInput s0))"
    for s k out
    using that handleSearch_resume_finally [of mk out "s\<lparr>pending := remove_nth k (pending s)\<rparr>"]
    by simp
  with handleSearch_starts [OF assms] show ?thesis by blast
qed

theorem submit_settles_finally_witness:
  "\<not> isLoading (initial_page\<lparr>tickerInput := ascii '' AAPL ''\<rparr>)
   \<and> trim (tickerInput (initial_page\<lparr>tickerInput := ascii '' AAPL ''\<rparr>)) \<noteq> []
   \<and> isLoading (handleSearch (initial_page\<lparr>tickerInput := ascii '' AAPL ''\<rparr>))
   \<and> \<not> isLoading (step None (Settles 0 FetchRejects)
                     (handleSearch (initial_page\<lparr>tickerInput := ascii '' AAPL ''\<rparr>)))
   \<and> requests (step None (Settles 0 FetchRejects)
                 (handleSearch (initial_page\<lparr>tickerInput := ascii '' AAPL ''\<rparr>)))
       = [PostResearch (ascii ''AAPL''), GetQuota]"
proof -
  let ?s0 = "initial_page\<lparr>tickerInput := ascii '' AAPL ''\<rparr>"
  have t: "trim (tickerInput ?s0) = ascii ''AAPL''"
    by (simp add: trim_def is_ws_def ascii_def)
  have a: "\<not> isLoading ?s0" and e: "requests ?s0 = []" "pending ?s0 = []"
    by (simp_all add: initial_page_def)
  have b: "trim (tickerInput ?s0) \<noteq> []"
    unfolding t by (simp add: ascii_def)
  note th = submit_settles_finally [OF a b, of None]
  from th have p: "pending (handleSearch ?s0) = [PostResearch (ascii ''AAPL'')]"
    and r: "requests (handleSearch ?s0) = [PostResearch (ascii ''AAPL'')]"
    and l: "isLoading (handleSearch ?s0)"
    using t e by simp_all
  from th have
    "0 < length (pending (handleSearch ?s0))
       \<and> pending (handleSearch ?s0) ! 0 = PostResearch (trim (tickerInput ?s0)) \<longrightarrow>
     isLoading (step None (Settles 0 FetchRejects) (handleSearch ?s0)) = False
       \<and> requests (step None (Settles 0 FetchRejects) (handleSearch ?s0))
           = requests (handleSearch ?s0) @ [GetQuota]"
    by blast
  with p r t have
    "\<not> isLoading (step None (Settles 0 FetchRejects) (handleSearch ?s0))
     \<and> requests (step None (Settles 0 FetchRejects) (handleSearch ?s0))
         = [PostResearch (ascii ''AAPL''), GetQuota]"
    by simp
  with a b l show ?thesis by blast
qed

text \<open>
  Claim C6. When the trimmed input is empty, a submit issues no request and starts none,
  leaves the flag and the views alone, and does nothing but set the shake animation on the
  search box together with the 400 ms timer that clears it again (and nothing at all while
  a request is in flight).
\<close>

theorem empty_submit_only_shakes:
  assumes "trim (tickerInput s) = []"
  shows "requests (handleSearch s) = requests s
       \<and> pending (handleSearch s) = pending s
       \<and> isLoading (handleSearch s) = isLoading s
       \<and> displays (handleSearch s) = displays s
       \<and> handleSearch s
           = (if isLoading s then s
              else s\<lparr>boxAnimation := ascii ''shake 0.4s ease'',
                     timers := timers s @ [(400, ShakeReset)]\<rparr>)
       \<and> boxAnimation (run_timer ShakeReset (handleSearch s)) = []"
  using assms by (simp add: handleSearch_def shakeInput_def displays_def)

theorem empty_submit_only_shakes_witness:
  "trim (tickerInput (initial_page\<lparr>tickerInput := [0x20, 0x09, 0x3000]\<rparr>)) = []
   \<and> requests (handleSearch (initial_page\<lparr>tickerInput := [0x20, 0x09, 0x3000]\<rparr>)) = []
   \<and> boxAnimation (handleSearch (initial_page\<lparr>tickerInput := [0x20, 0x09, 0x3000]\<rparr>))
       = ascii ''shake 0.4s ease''"
proof -
  let ?s = "initial_page\<lparr>tickerInput := [0x20, 0x09, 0x3000]\<rparr>"
  have t: "trim (tickerInput ?s) = []"
    by (simp add: trim_def is_ws_def)
  have i: "\<not> isLoading ?s" "requests ?s = []"
    by (simp_all add: initial_page_def)
  from empty_submit_only_shakes [OF t] i t show ?thesis
    by simp
qed


section \<open>The error view\<close>


lemma shows_error_resume:
  "shows_error title message (handleSearch_resume mk out s)
     = shows_error title message (handleSearch_try mk out s)"
  by (simp add: shows_error_def displays_handleSearch_resume)
     (simp add: handleSearch_resume_def updateQuota_def fetch_def)

lemma showError_done:
  assumes "textContent_of title = Inr t" and "textContent_of message = Inr m"
  shows "fst (showError title message s) = None \<and> shows_error t m (snd (showError title message s))"
  using assms displays_showError [of title message s]
  by (simp add: shows_error_def) (simp add: showError_def attempt_def Let_def)


lemma shows_error_catch:
  "shows_error network_error_title network_error_message (handleSearch_catch s)"
  using showError_done [of "JStr network_error_title" network_error_title
      "JStr network_error_message" network_error_message s]
  by (simp add: handleSearch_catch_def textContent_of_JStr)








text \<open>
  Claim C5. When the research request cannot complete, because the fetch rejects, or the
  body does not parse (whatever the status), or the parsed body is \<^verbatim>\<open>null\<close> so that reading
  it throws, the error view is shown alone with the fixed network-failure title and
  message.
\<close>

theorem request_failed_generic:
  "shows_error network_error_title network_error_message (handleSearch_resume mk FetchRejects s)
   \<and> shows_error network_error_title network_error_message
       (handleSearch_resume mk (JsonRejects status) s)
   \<and> shows_error network_error_title network_error_message
       (handleSearch_resume mk (JsonResolves status JNull) s)"
  by (simp add: shows_error_resume shows_error_catch showReport_def attempt_def)

theorem request_failed_generic_witness:
  "errorTitle (handleSearch_resume None (JsonRejects 502) initial_page)
     = [0x7DB2, 0x8DEF, 0x9023, 0x7DDA, 0x5931, 0x6557]
   \<and> displays (handleSearch_resume None (JsonRejects 502) initial_page)
     = [ascii ''none'', ascii ''none'', ascii ''none'', ascii ''block'']"
  using request_failed_generic [of None initial_page 502]
  by (simp add: shows_error_def error_only_def network_error_title_def)


section \<open>The quota display\<close>

text \<open>
  A refresh goes through when both members can be read and converted to text; in every
  other case it ends in the catch block and only the console changes.
\<close>

lemma updateQuota_resume_done:
  assumes "js_get data (ascii ''remaining'') = Inr r" and "js_to_string r = Inr a"
    and "js_get data (ascii ''total'') = Inr t" and "js_to_string t = Inr b"
  shows "quotaText (updateQuota_resume (JsonResolves status data) s) = a @ ascii ''/'' @ b
       \<and> set (quotaClasses (updateQuota_resume (JsonResolves status data) s))
           = set (quotaClasses s) - {ascii ''warning'', ascii ''empty''}
             \<union> (if strict_equals_int r 0 then {ascii ''empty''}
                else if strict_equals_int r 1 then {ascii ''warning''} else {})"
  using assms by (simp add: Let_def set_classList_remove set_classList_add)

lemma updateQuota_resume_cases:
  "(\<exists>e. updateQuota_resume out s = updateQuota_catch e s)
   \<or> (\<exists>status data r a t b. out = JsonResolves status data
         \<and> js_get data (ascii ''remaining'') = Inr r \<and> js_to_string r = Inr a
         \<and> js_get data (ascii ''total'') = Inr t \<and> js_to_string t = Inr b)"
  by (cases out) (auto split: sum.splits)



text \<open>Sample bodies: none left, one left, two left, and numbers of several digits.\<close>

lemma updateQuota_samples:
  "quotaClasses (updateQuota_resume
       (JsonResolves 200 (JObj [(ascii ''remaining'', JNum (small_of_int 0)),
                                (ascii ''total'', JNum (small_of_int 5))]))
       initial_page) = [ascii ''quota-value'', ascii ''empty'']"
  "quotaClasses (updateQuota_resume
       (JsonResolves 200 (JObj [(ascii ''remaining'', JNum (small_of_int 1)),
                                (ascii ''total'', JNum (small_of_int 5))]))
       initial_page) = [ascii ''quota-value'', ascii ''warning'']"
  "quotaClasses (updateQuota_resume
       (JsonResolves 200 (JObj [(ascii ''remaining'', JNum (small_of_int 2)),
                                (ascii ''total'', JNum (small_of_int 5))]))
       (initial_page\<lparr>quotaClasses := [ascii ''quota-value'', ascii ''warning'']\<rparr>))
     = [ascii ''quota-value'']"
  "quotaText (updateQuota_resume
       (JsonResolves 200 (JObj [(ascii ''remaining'', JNum (small_of_int 12)),
                                (ascii ''total'', JNum (small_of_int 100))]))
       initial_page) = ascii ''12/100''"
  by (simp_all add: ascii_def initial_page_def classList_remove_def classList_add_def Let_def
      int_text_def dec_digits.simps int_of_small_inverse)

text \<open>
  Claim C8. When the quota fetch rejects or its body does not parse, the only change to
  the state is one more entry in the console: the quota text, its classes, the views and
  the error texts are all as before.
\<close>

theorem updateQuota_failure_silent:
  "updateQuota_resume FetchRejects s = s\<lparr>console := console s @ [QuotaCheckFailed NetworkError]\<rparr>
   \<and> updateQuota_resume (JsonRejects status) s
       = s\<lparr>console := console s @ [QuotaCheckFailed JsonSyntaxError]\<rparr>"
  by (simp add: updateQuota_catch_def)

theorem updateQuota_failure_silent_witness:
  "quotaText (updateQuota_resume FetchRejects (initial_page\<lparr>quotaText := ascii ''3/5''\<rparr>))
     = ascii ''3/5''
   \<and> displays (updateQuota_resume FetchRejects (initial_page\<lparr>quotaText := ascii ''3/5''\<rparr>))
     = displays initial_page
   \<and> console (updateQuota_resume FetchRejects (initial_page\<lparr>quotaText := ascii ''3/5''\<rparr>))
     = [QuotaCheckFailed NetworkError]"
  using updateQuota_failure_silent [of "initial_page\<lparr>quotaText := ascii ''3/5''\<rparr>"]
  by (simp add: displays_def initial_page_def)

text \<open>
  A response that carries no quota but parses is not such a failure: the script does not
  look at the status, and a body without the two members overwrites the text.
\<close>

lemma updateQuota_error_body:
  "quotaText (updateQuota_resume (JsonResolves 500 (JObj [(ascii ''error'', JStr e)])) s)
     = ascii ''undefined/undefined''"
  by (simp add: ascii_def)

text \<open>
  A member that cannot be converted to text makes the template literal throw before any
  class is touched: the refresh fails, and the element keeps what it had.
\<close>

lemma updateQuota_unprintable:
  "updateQuota_resume
     (JsonResolves 200 (JObj [(ascii ''remaining'', JObj [(ascii ''toString'', JNum (small_of_int 0))]),
                              (ascii ''total'', JNum (small_of_int 5))]))
     s
   = s\<lparr>console := console s @ [QuotaCheckFailed TypeError]\<rparr>"
  by (simp add: ascii_def updateQuota_catch_def)

text \<open>
  Claim C10. After a quota refresh that went through (both members of the body could be
  read and converted to text, so that the display was updated), the quota element never
  carries both \<^verbatim>\<open>warning\<close> and \<^verbatim>\<open>empty\<close>, whatever it carried before.
\<close>

theorem quota_classes_exclusive:
  assumes "js_get data (ascii ''remaining'') = Inr r" and "js_to_string r = Inr a"
    and "js_get data (ascii ''total'') = Inr t" and "js_to_string t = Inr b"
  shows "\<not> (ascii ''warning'' \<in> set (quotaClasses (updateQuota_resume (JsonResolves status data) s))
          \<and> ascii ''empty'' \<in> set (quotaClasses (updateQuota_resume (JsonResolves status data) s)))"
  using updateQuota_resume_done [OF assms, of status s] ascii_neq_warning_empty
  by (auto split: if_splits)

theorem quota_classes_exclusive_witness:
  "js_get (JObj [(ascii ''remaining'', JNum (small_of_int 0)), (ascii ''total'', JNum (small_of_int 5))])
       (ascii ''remaining'') = Inr (JNum (small_of_int 0))
   \<and> js_to_string (JNum (small_of_int 0)) = Inr (ascii ''0'')
   \<and> js_get (JObj [(ascii ''remaining'', JNum (small_of_int 0)), (ascii ''total'', JNum (small_of_int 5))])
       (ascii ''total'') = Inr (JNum (small_of_int 5))
   \<and> js_to_string (JNum (small_of_int 5)) = Inr (ascii ''5'')
   \<and> \<not> (ascii ''warning'' \<in> set (quotaClasses (updateQuota_resume
            (JsonResolves 200 (JObj [(ascii ''remaining'', JNum (small_of_int 0)),
                                     (ascii ''total'', JNum (small_of_int 5))]))
            (initial_page\<lparr>quotaClasses := [ascii ''warning'', ascii ''empty'']\<rparr>)))
        \<and> ascii ''empty'' \<in> set (quotaClasses (updateQuota_resume
            (JsonResolves 200 (JObj [(ascii ''remaining'', JNum (small_of_int 0)),
                                     (ascii ''total'', JNum (small_of_int 5))]))
            (initial_page\<lparr>quotaClasses := [ascii ''warning'', ascii ''empty'']\<rparr>))))
   \<and> js_to_string (JObj [(ascii ''toString'', JNum (small_of_int 0))]) = Inl TypeError
   \<and> quotaClasses (updateQuota_resume
        (JsonResolves 200 (JObj [(ascii ''remaining'', JObj [(ascii ''toString'', JNum (small_of_int 0))]),
                                 (ascii ''total'', JNum (small_of_int 5))]))
        (initial_page\<lparr>quotaClasses := [ascii ''warning'', ascii ''empty'']\<rparr>))
       = [ascii ''warning'', ascii ''empty'']"
proof -
  let ?d = "JObj [(ascii ''remaining'', JNum (small_of_int 0)), (ascii ''total'', JNum (small_of_int 5))]"
  have r: "js_get ?d (ascii ''remaining'') = Inr (JNum (small_of_int 0))"
    by (simp add: ascii_def)
  have a: "js_to_string (JNum (small_of_int 0)) = Inr (ascii ''0'')"
    by (simp add: ascii_def int_text_def dec_digits.simps int_of_small_inverse)
  have t: "js_get ?d (ascii ''total'') = Inr (JNum (small_of_int 5))"
    by (simp add: ascii_def)
  have b: "js_to_string (JNum (small_of_int 5)) = Inr (ascii ''5'')"
    by (simp add: ascii_def int_text_def dec_digits.simps int_of_small_inverse)
  have u: "js_to_string (JObj [(ascii ''toString'', JNum (small_of_int 0))]) = Inl TypeError"
    by simp
  have k: "quotaClasses (updateQuota_resume
        (JsonResolves 200 (JObj [(ascii ''remaining'', JObj [(ascii ''toString'', JNum (small_of_int 0))]),
                                 (ascii ''total'', JNum (small_of_int 5))]))
        (initial_page\<lparr>quotaClasses := [ascii ''warning'', ascii ''empty'']\<rparr>))
       = [ascii ''warning'', ascii ''empty'']"
    by (simp add: ascii_def updateQuota_catch_def)
  from quota_classes_exclusive [OF r a t b, of 200
      "initial_page\<lparr>quotaClasses := [ascii ''warning'', ascii ''empty'']\<rparr>"] r a t b u k
  show ?thesis by blast
qed


section \<open>The progress timers\<close>

lemma timer_fires_idle:
  assumes "\<not> isLoading s"
  shows "\<exists>ts b. step mk (TimerFires k) s = s\<lparr>timers := ts, boxAnimation := b\<rparr>"
proof (cases "k < length (timers s)")
  case False
  then have "step mk (TimerFires k) s = s\<lparr>timers := timers s, boxAnimation := boxAnimation s\<rparr>"
    by simp
  then show ?thesis by blast
next
  case True
  show ?thesis
  proof (cases "snd (timers s ! k)")
    case (StepTimer i)
    with True assms
    have "step mk (TimerFires k) s
        = s\<lparr>timers := remove_nth k (timers s), boxAnimation := boxAnimation s\<rparr>"
      by (simp add: step_timer_def)
    then show ?thesis by blast
  next
    case ShakeReset
    with True
    have "step mk (TimerFires k) s = s\<lparr>timers := remove_nth k (timers s), boxAnimation := []\<rparr>"
      by simp
    then show ?thesis by blast
  qed
qed

lemma timers_fire_idle:
  "\<not> isLoading s \<Longrightarrow>
   \<exists>ts b. run mk (map TimerFires ks) s = s\<lparr>timers := ts, boxAnimation := b\<rparr>"
proof (induction ks arbitrary: s)
  case Nil
  have "run mk (map TimerFires []) s = s\<lparr>timers := timers s, boxAnimation := boxAnimation s\<rparr>"
    by (simp add: run_def)
  then show ?case by blast
next
  case (Cons k ks)
  obtain ts b where 1: "step mk (TimerFires k) s = s\<lparr>timers := ts, boxAnimation := b\<rparr>"
    using timer_fires_idle [OF Cons.prems] by blast
  have "\<not> isLoading (s\<lparr>timers := ts, boxAnimation := b\<rparr>)"
    using Cons.prems by simp
  from Cons.IH [OF this] obtain ts' b' where
    2: "run mk (map TimerFires ks) (s\<lparr>timers := ts, boxAnimation := b\<rparr>)
          = s\<lparr>timers := ts, boxAnimation := b\<rparr>\<lparr>timers := ts', boxAnimation := b'\<rparr>"
    by blast
  have "run mk (map TimerFires (k # ks)) s = s\<lparr>timers := ts', boxAnimation := b'\<rparr>"
    using 1 2 by (simp add: run_def)
  then show ?case by blast
qed

text \<open>
  Claim C9. Showing the loading view sets the four step timers (0, 3, 8 and 15 seconds).
  Each of them looks at \<^verbatim>\<open>isLoading\<close> first: fired while the flag is false, a step timer
  changes nothing, and however many timers fire while the flag stays false, the page is
  as it was but for the timer list and the shake animation of the search box.
\<close>

theorem progress_timers_guarded:
  "timers (showLoading ticker s)
     = timers s @ [(0, StepTimer 0), (3000, StepTimer 1), (8000, StepTimer 2), (15000, StepTimer 3)]
   \<and> (\<not> isLoading s' \<longrightarrow>
        run_timer (StepTimer i) s' = s'
      \<and> (\<exists>ts b. run mk (map TimerFires ks) s' = s'\<lparr>timers := ts, boxAnimation := b\<rparr>))"
  using timers_fire_idle [of s' mk ks]
  by (simp add: timers_showLoading step_timer_def)

theorem progress_timers_guarded_witness:
  "\<not> isLoading (initial_page\<lparr>timers := [(8000, StepTimer 2), (15000, StepTimer 3)]\<rparr>)
   \<and> step None (TimerFires 0) (initial_page\<lparr>timers := [(8000, StepTimer 2), (15000, StepTimer 3)]\<rparr>)
       = initial_page\<lparr>timers := [(15000, StepTimer 3)]\<rparr>"
proof -
  let ?s = "initial_page\<lparr>timers := [(15000, StepTimer 3)]\<rparr>"
  have i: "\<not> isLoading ?s" by (simp add: initial_page_def)
  from progress_timers_guarded [of "[]" initial_page ?s 2 None "[]"] i
  have "run_timer (StepTimer 2) ?s = ?s"
    by blast
  with i show ?thesis by (simp add: remove_nth_def)
qed

end
